theory Spec2Isabelle
  imports Complex_Main "HOL-Library.Char_ord" "HOL-Library.List_Lexorder" "HOL-Library.Sublist"
begin

section \<open>Market analysis (backend/main.py, analyze_market)\<close>

text \<open>
  The model covers the computation of \<open>analyze_market\<close> on a cache miss: steps A to D of
  the source, from the three fetched data sets to the result dictionary. The three calls to
  the geodata provider are inputs: each is \<open>None\<close> when the call raises (the source catches
  the exception and keeps the initial values) and \<open>Some\<close> of the rows otherwise.
  Counts are Python ints obtained from \<open>len\<close>, hence natural numbers.
\<close>

datatype category = Office | Students | Residential | Transport

datatype growth = Stable | Growing | Booming

datatype verdict = Uncontested | HighPotential | Balanced | Saturated

text \<open>What reading the centroid of a supply row gives: a point, a point with a NaN
  coordinate (the row is skipped), or an exception.\<close>

datatype 'p centroid = Point 'p | NaN | Unreadable

text \<open>A supply row: the name column (\<open>None\<close> when missing or NaN) and the centroid.\<close>

record 'p supply_row =
  s_name :: "string option"
  s_centroid :: "'p centroid"

text \<open>A demand row: the cell values in column order, each already passed through \<open>str\<close>,
  and the centroid of the geometry, \<open>None\<close> when reading it raises.\<close>

record 'p demand_row =
  d_cells :: "string list"
  d_centroid :: "'p option"

record 'p analysis_result =
  score :: real
  verdict :: verdict
  verdict_color :: string
  supply_count :: nat
  demand_count :: nat
  demand_breakdown :: "category \<Rightarrow> nat"
  growth_status :: growth
  construction_count :: nat
  supply_points :: "('p \<times> string) list"
  demand_points :: "'p list"

definition demand_tags_map :: "string \<rightharpoonup> category" where
  "demand_tags_map = map_of
     [(''office'', Office),
      (''school'', Students),
      (''university'', Students),
      (''college'', Students),
      (''apartments'', Residential),
      (''condominium'', Residential),
      (''residential'', Residential),
      (''station'', Transport)]"

definition empty_breakdown :: "category \<Rightarrow> nat" where
  "empty_breakdown = (\<lambda>g. 0)"

definition breakdown_total :: "(category \<Rightarrow> nat) \<Rightarrow> nat" where
  "breakdown_total bd = bd Office + bd Students + bd Residential + bd Transport"

text \<open>The inner loop over the columns of one row: the first cell whose value is a key of
  \<open>demand_tags_map\<close> decides the group (\<open>break\<close>).\<close>

fun first_group :: "string list \<Rightarrow> category option" where
  "first_group [] = None"
| "first_group (v # vs) =
     (case demand_tags_map v of Some g \<Rightarrow> Some g | None \<Rightarrow> first_group vs)"

definition classify_row :: "(category \<Rightarrow> nat) \<Rightarrow> 'p demand_row \<Rightarrow> (category \<Rightarrow> nat)" where
  "classify_row bd row =
     (case first_group (d_cells row) of
        Some g \<Rightarrow> bd(g := bd g + 1)
      | None \<Rightarrow> bd(Residential := bd Residential + 1))"

text \<open>\<open>DataFrame.sample(n)\<close>: \<open>n\<close> rows drawn without replacement. The random source is the
  explicit argument \<open>rng\<close> (the \<open>k\<close>-th draw picks position \<open>rng k mod length xs\<close> among the
  rows still available).\<close>

fun sample_rows :: "(nat \<Rightarrow> nat) \<Rightarrow> nat \<Rightarrow> 'a list \<Rightarrow> 'a list" where
  "sample_rows rng 0 xs = []"
| "sample_rows rng (Suc k) xs =
     (if xs = [] then []
      else (let i = rng k mod length xs
            in xs ! i # sample_rows rng k (take i xs @ drop (Suc i) xs)))"

definition first_draw :: "nat \<Rightarrow> nat" where
  "first_draw k = 0"

text \<open>Step A. The loop appends a point for every row whose coordinates are not NaN; a
  missing name is shown as Unknown. When reading a centroid raises, the loop is left with
  the points appended so far; the flag tells whether the loop ran to its end.\<close>

fun supply_loop ::
  "('p \<times> string) list \<Rightarrow> 'p supply_row list \<Rightarrow> ('p \<times> string) list \<times> bool" where
  "supply_loop supply_pts [] = (supply_pts, True)"
| "supply_loop supply_pts (row # rows) =
     (case s_centroid row of
        Unreadable \<Rightarrow> (supply_pts, False)
      | NaN \<Rightarrow> supply_loop supply_pts rows
      | Point p \<Rightarrow>
          supply_loop
            (supply_pts @ [(p, (case s_name row of None \<Rightarrow> ''Unknown'' | Some n \<Rightarrow> n))])
            rows)"

text \<open>\<open>num_supply\<close> is assigned after the loop, inside the \<open>try\<close>: it stays 0 when the
  fetch raises, when the frame is empty and when the loop raises.\<close>

definition fetch_supply :: "'p supply_row list option \<Rightarrow> ('p \<times> string) list \<times> nat" where
  "fetch_supply fetched =
     (case fetched of
        None \<Rightarrow> ([], 0)
      | Some rows \<Rightarrow>
          if rows = [] then ([], 0)
          else (case supply_loop [] rows of
                  (supply_pts, True) \<Rightarrow> (supply_pts, length supply_pts)
                | (supply_pts, False) \<Rightarrow> (supply_pts, 0)))"

text \<open>Step B: every row is classified, the counts being updated in place; then the
  centroids of all rows are read, the rows are sampled down to 1000 when there are more,
  and the centroids of the remaining rows are the demand points. When reading a centroid
  raises, the counts stay as they are and the list of demand points stays empty.\<close>

definition fetch_demand ::
  "(nat \<Rightarrow> nat) \<Rightarrow> 'p demand_row list option \<Rightarrow> (category \<Rightarrow> nat) \<times> 'p list" where
  "fetch_demand rng fetched =
     (case fetched of
        None \<Rightarrow> (empty_breakdown, [])
      | Some rows \<Rightarrow>
          if rows = [] then (empty_breakdown, [])
          else (let counts = foldl classify_row empty_breakdown rows
                in if list_ex (\<lambda>row. d_centroid row = None) rows
                   then (counts, [])
                   else (counts,
                         map (\<lambda>row. the (d_centroid row))
                           (if length rows > 1000 then sample_rows rng 1000 rows
                            else rows))))"

text \<open>Step C: the number of construction sites and the growth label.\<close>

definition future_growth :: "nat option \<Rightarrow> growth \<times> nat" where
  "future_growth fetched =
     (case fetched of
        None \<Rightarrow> (Stable, 0)
      | Some cons_count \<Rightarrow>
          (if cons_count > 5 then Booming
           else if cons_count > 2 then Growing
           else Stable, cons_count))"

text \<open>Step D. The source computes \<open>round(num_demand / divisor, 2)\<close> on floats; the rounding
  of a quotient to two decimals is the argument \<open>round2\<close>, the quotient itself is exact.\<close>

definition market_score :: "(real \<Rightarrow> real) \<Rightarrow> nat \<Rightarrow> nat \<Rightarrow> real" where
  "market_score round2 num_supply num_demand =
     (let divisor = (if num_supply > 0 then num_supply else 1)
      in round2 (real num_demand / real divisor))"

definition market_verdict :: "nat \<Rightarrow> nat \<Rightarrow> real \<Rightarrow> verdict \<times> string" where
  "market_verdict num_supply num_demand sc =
     (if num_supply = 0 \<and> num_demand > 0 then (Uncontested, ''#2980b9'')
      else if sc > 5.0 then (HighPotential, ''#27ae60'')
      else if sc > 2.0 then (Balanced, ''#f39c12'')
      else (Saturated, ''#c0392b''))"

definition analyze_market ::
  "(real \<Rightarrow> real) \<Rightarrow> (nat \<Rightarrow> nat) \<Rightarrow> 'p supply_row list option \<Rightarrow> 'p demand_row list option
     \<Rightarrow> nat option \<Rightarrow> 'p analysis_result" where
  "analyze_market round2 rng supply demand cons =
     (let (supply_pts, num_supply) = fetch_supply supply;
          (bd, demand_pts) = fetch_demand rng demand;
          (growth, cons_count) = future_growth cons;
          num_demand = length demand_pts;
          sc = market_score round2 num_supply num_demand;
          (v, color) = market_verdict num_supply num_demand sc
      in \<lparr> score = sc, verdict = v, verdict_color = color,
           supply_count = num_supply, demand_count = num_demand,
           demand_breakdown = bd, growth_status = growth,
           construction_count = cons_count,
           supply_points = supply_pts, demand_points = demand_pts \<rparr>)"

text \<open>Rounding to two decimals, ties to even, on exact numbers: an instance of \<open>round2\<close>
  for evaluating examples.\<close>

definition round_half_even2 :: "real \<Rightarrow> real" where
  "round_half_even2 x =
     (let y = x * 100; f = \<lfloor>y\<rfloor>; d = y - of_int f
      in (if d < 1/2 then of_int f
          else if d > 1/2 then of_int (f + 1)
          else if even f then of_int f else of_int (f + 1)) / 100)"

section \<open>Result cache (backend/cache_manager.py)\<close>

text \<open>
  The cache directory is a map from cache keys (file names) to file contents. A file either
  parses to an entry or makes the reader raise (\<open>Unreadable\<close>), which \<open>get\<close> catches.
  Times are microseconds, the resolution of \<open>datetime\<close>; \<open>now\<close> and the time-to-live are
  arguments. \<open>hashlib.sha256\<close> and \<open>json.dumps\<close> are library functions and are arguments
  too: \<open>dumps\<close> serialises the sorted list of pairs, \<open>sha256\<close> maps that text to its
  hex digest.
\<close>

record ('v, 'd) cache_entry =
  ce_timestamp :: int
  ce_params :: "(string \<times> 'v) list"
  ce_data :: 'd

datatype ('v, 'd) cache_file = Unreadable | Stored "('v, 'd) cache_entry"

type_synonym ('v, 'd) cache_store = "string \<rightharpoonup> ('v, 'd) cache_file"

text \<open>\<open>kwargs\<close> is a dictionary in insertion order: a list of pairs with distinct keys.
  \<open>sorted(kwargs.items())\<close> compares the pairs as tuples; the keys of a dictionary differ,
  so the values are never compared and the order is the order of the keys.\<close>

definition generate_key ::
  "(string \<Rightarrow> string) \<Rightarrow> ((string \<times> 'v) list \<Rightarrow> string) \<Rightarrow> (string \<times> 'v) list \<Rightarrow> string" where
  "generate_key sha256 dumps kwargs =
     (let sorted_params = sort_key fst kwargs;
          param_string = dumps sorted_params
      in sha256 param_string)"

definition cache_get ::
  "(string \<Rightarrow> string) \<Rightarrow> ((string \<times> 'v) list \<Rightarrow> string) \<Rightarrow> int \<Rightarrow> int \<Rightarrow> (string \<times> 'v) list
     \<Rightarrow> ('v, 'd) cache_store \<Rightarrow> 'd option \<times> ('v, 'd) cache_store" where
  "cache_get sha256 dumps ttl now kwargs store =
     (let cache_key = generate_key sha256 dumps kwargs
      in case store cache_key of
           None \<Rightarrow> (None, store)
         | Some Unreadable \<Rightarrow> (None, store)
         | Some (Stored cached_data) \<Rightarrow>
             if now - ce_timestamp cached_data > ttl
             then (None, store(cache_key := None))
             else (Some (ce_data cached_data), store))"

definition cache_set ::
  "(string \<Rightarrow> string) \<Rightarrow> ((string \<times> 'v) list \<Rightarrow> string) \<Rightarrow> int \<Rightarrow> 'd \<Rightarrow> (string \<times> 'v) list
     \<Rightarrow> ('v, 'd) cache_store \<Rightarrow> ('v, 'd) cache_store" where
  "cache_set sha256 dumps now data kwargs store =
     (let cache_key = generate_key sha256 dumps kwargs
      in store(cache_key \<mapsto>
           Stored \<lparr> ce_timestamp = now, ce_params = kwargs, ce_data = data \<rparr>))"

section \<open>Analysis history (backend/history_manager.py)\<close>

text \<open>
  The history file holds a list of entries, or is unreadable (\<open>None\<close>), in which case
  \<open>_load_history\<close> returns the empty list. The result passed to \<open>add_analysis\<close> is read
  with \<open>dict.get\<close>, so each summarised field is optional. Rounding of a coordinate to six
  decimals is the argument \<open>round6\<close>. Scores are floats: the addition of two floats is the
  argument \<open>fadd\<close>, and the scores are added from the first entry to the last.
\<close>

record result_summary =
  rs_score :: "real option"
  rs_verdict :: "verdict option"
  rs_supply_count :: "nat option"
  rs_demand_count :: "nat option"
  rs_growth_status :: "growth option"
  rs_construction_count :: "nat option"

record history_entry =
  h_timestamp :: int
  h_location :: "real \<times> real"
  h_business_type :: string
  h_radius :: int
  h_result :: result_summary

record statistics =
  total_analyses :: nat
  business_types :: "(string \<times> nat) list"
  average_score :: real
  most_analyzed_type :: "string option"
  date_range :: "(int \<times> int) option"

datatype py_error = TypeError

definition load_history :: "history_entry list option \<Rightarrow> history_entry list" where
  "load_history file = (case file of None \<Rightarrow> [] | Some history \<Rightarrow> history)"

definition make_entry ::
  "(real \<Rightarrow> real) \<Rightarrow> int \<Rightarrow> real \<Rightarrow> real \<Rightarrow> string \<Rightarrow> int \<Rightarrow> result_summary \<Rightarrow> history_entry" where
  "make_entry round6 now lat lon business_type radius result =
     \<lparr> h_timestamp = now, h_location = (round6 lat, round6 lon),
       h_business_type = business_type, h_radius = radius, h_result = result \<rparr>"

definition add_analysis ::
  "(real \<Rightarrow> real) \<Rightarrow> int \<Rightarrow> real \<Rightarrow> real \<Rightarrow> string \<Rightarrow> int \<Rightarrow> result_summary
     \<Rightarrow> history_entry list option \<Rightarrow> history_entry list option" where
  "add_analysis round6 now lat lon business_type radius result file =
     (let history = load_history file;
          entry = make_entry round6 now lat lon business_type radius result;
          history = history @ [entry];
          history = (if length history > 100
                     then drop (length history - 100) history else history)
      in Some history)"

text \<open>The summary that \<open>analyze_market\<close> hands to the history: every field is present.\<close>

definition summary_of :: "'p analysis_result \<Rightarrow> result_summary" where
  "summary_of r =
     \<lparr> rs_score = Some (score r), rs_verdict = Some (verdict r),
       rs_supply_count = Some (supply_count r), rs_demand_count = Some (demand_count r),
       rs_growth_status = Some (growth_status r),
       rs_construction_count = Some (construction_count r) \<rparr>"

text \<open>\<open>business_types[btype] = business_types.get(btype, 0) + 1\<close> on a dictionary in
  insertion order.\<close>

fun bump :: "(string \<times> nat) list \<Rightarrow> string \<Rightarrow> (string \<times> nat) list" where
  "bump [] btype = [(btype, 1)]"
| "bump ((k, c) # m) btype =
     (if k = btype then (k, c + 1) # m else (k, c) # bump m btype)"

text \<open>\<open>total_score += entry["result"].get("score", 0)\<close>: the key is always there, so a
  stored null is read as \<open>None\<close> and the addition raises.\<close>

fun stats_loop ::
  "(real \<Rightarrow> real \<Rightarrow> real) \<Rightarrow> (string \<times> nat) list \<Rightarrow> real \<Rightarrow> history_entry list
     \<Rightarrow> py_error + ((string \<times> nat) list \<times> real)" where
  "stats_loop fadd types total_score [] = Inr (types, total_score)"
| "stats_loop fadd types total_score (entry # rest) =
     (case rs_score (h_result entry) of
        None \<Rightarrow> Inl TypeError
      | Some sc \<Rightarrow>
          stats_loop fadd (bump types (h_business_type entry)) (fadd total_score sc) rest)"

text \<open>\<open>max(items, key=...)\<close> keeps the first of the largest items.\<close>

fun max_item :: "(string \<times> nat) \<Rightarrow> (string \<times> nat) list \<Rightarrow> (string \<times> nat)" where
  "max_item best [] = best"
| "max_item best (x # xs) = (if snd x > snd best then max_item x xs else max_item best xs)"

definition most_analyzed :: "(string \<times> nat) list \<Rightarrow> string option" where
  "most_analyzed types =
     (case types of [] \<Rightarrow> None | x # xs \<Rightarrow> Some (fst (max_item x xs)))"

definition get_statistics ::
  "(real \<Rightarrow> real \<Rightarrow> real) \<Rightarrow> (real \<Rightarrow> real) \<Rightarrow> history_entry list option
     \<Rightarrow> py_error + statistics" where
  "get_statistics fadd round2 file =
     (let history = load_history file
      in if history = []
         then Inr \<lparr> total_analyses = 0, business_types = [], average_score = 0,
                    most_analyzed_type = None, date_range = None \<rparr>
         else (case stats_loop fadd [] 0 history of
                 Inl e \<Rightarrow> Inl e
               | Inr (types, total_score) \<Rightarrow>
                   Inr \<lparr> total_analyses = length history,
                         business_types = types,
                         average_score = round2 (total_score / real (length history)),
                         most_analyzed_type = most_analyzed types,
                         date_range = Some (h_timestamp (hd history),
                                            h_timestamp (last history)) \<rparr>))"

text \<open>A sequence of \<open>add_analysis\<close> calls, each with its clock reading and arguments,
  and the entry that a call appends.\<close>

type_synonym call = "int \<times> real \<times> real \<times> string \<times> int \<times> result_summary"

fun add_all ::
  "(real \<Rightarrow> real) \<Rightarrow> history_entry list option \<Rightarrow> call list \<Rightarrow> history_entry list option" where
  "add_all round6 file [] = file"
| "add_all round6 file ((now, lat, lon, business_type, radius, result) # calls) =
     add_all round6 (add_analysis round6 now lat lon business_type radius result file) calls"

fun entry_of_call :: "(real \<Rightarrow> real) \<Rightarrow> call \<Rightarrow> history_entry" where
  "entry_of_call round6 (now, lat, lon, business_type, radius, result) =
     make_entry round6 now lat lon business_type radius result"

text \<open>The \<open>n\<close> most recent elements of a list that grows at its end, oldest first.\<close>

definition most_recent :: "nat \<Rightarrow> 'a list \<Rightarrow> 'a list" where
  "most_recent n xs = drop (length xs - n) xs"

text \<open>The number of entries of a business type, and the stored scores added from the
  first entry to the last.\<close>

definition type_count :: "history_entry list \<Rightarrow> string \<Rightarrow> nat" where
  "type_count history btype = length (filter (\<lambda>e. h_business_type e = btype) history)"

definition score_sum :: "(real \<Rightarrow> real \<Rightarrow> real) \<Rightarrow> history_entry list \<Rightarrow> real" where
  "score_sum fadd history = foldl fadd 0 (map (\<lambda>e. the (rs_score (h_result e))) history)"

section \<open>Place search ranking (backend/main.py, autocomplete)\<close>

text \<open>
  A candidate as the loop reads it. \<open>type\<close>, \<open>class\<close> and the country of the address are
  read with \<open>get\<close>; \<open>display_name\<close>, \<open>lat\<close> and \<open>lon\<close> are read with subscripts and converted
  with \<open>float\<close>, so each of them, like \<open>importance\<close>, is \<open>None\<close> when reading it raises.
  An exception anywhere in the loop ends the request with the empty list. \<open>str.lower\<close> is
  the argument \<open>lower\<close>; the score is a float, and the addition and the multiplication of
  floats are the arguments \<open>fadd\<close> and \<open>fmul\<close>.
\<close>

record item =
  i_type :: string
  i_class :: string
  i_importance :: "real option"
  i_country :: "string option"
  i_display_name :: "string option"
  i_lat :: "real option"
  i_lon :: "real option"

record scored_result =
  r_display_name :: string
  r_lat :: real
  r_lon :: real
  r_score :: real
  r_type :: string
  r_class :: string

record suggestion =
  g_display_name :: string
  g_lat :: real
  g_lon :: real

datatype 'a outcome = Raised | Skipped | Scored 'a

datatype priority = Fixed nat | ByType "(string \<times> nat) list"

definition priority_map :: "(string \<times> priority) list" where
  "priority_map =
     [(''amenity'', Fixed 100),
      (''shop'', Fixed 95),
      (''tourism'', Fixed 90),
      (''leisure'', Fixed 85),
      (''building'', Fixed 80),
      (''highway'', Fixed 70),
      (''place'', ByType
         [(''neighbourhood'', 60),
          (''suburb'', 55),
          (''quarter'', 58),
          (''city_block'', 62),
          (''hamlet'', 50),
          (''village'', 45),
          (''town'', 40),
          (''city'', 35),
          (''state'', 10),
          (''country'', 5)]),
      (''boundary'', Fixed 20)]"

definition base_score :: "string \<Rightarrow> string \<Rightarrow> nat" where
  "base_score place_class place_type =
     (case map_of priority_map place_class of
        Some (ByType types) \<Rightarrow> (case map_of types place_type of Some n \<Rightarrow> n | None \<Rightarrow> 30)
      | Some (Fixed n) \<Rightarrow> n
      | None \<Rightarrow> 40)"

text \<open>\<open>s.split(",")\<close>: never empty, one more piece than there are commas.\<close>

fun split_comma :: "string \<Rightarrow> string list" where
  "split_comma [] = [[]]"
| "split_comma (c # cs) =
     (if c = CHR '','' then [] # split_comma cs
      else (case split_comma cs of [] \<Rightarrow> [[c]] | s # ss \<Rightarrow> (c # s) # ss))"

text \<open>\<open>q in s\<close> on strings: \<open>q\<close> occurs in \<open>s\<close> as a contiguous piece.\<close>

fun contains :: "string \<Rightarrow> string \<Rightarrow> bool" where
  "contains [] q = (q = [])"
| "contains (c # cs) q = (prefix q (c # cs) \<or> contains cs q)"

text \<open>The bonus for a name that matches the query, added to the score so far.\<close>

definition add_name_bonus ::
  "(real \<Rightarrow> real \<Rightarrow> real) \<Rightarrow> (string \<Rightarrow> string) \<Rightarrow> string \<Rightarrow> string \<Rightarrow> real \<Rightarrow> real" where
  "add_name_bonus fadd lower query display_name sc =
     (let display_name_lower = lower display_name;
          query_lower = lower query
      in if prefix query_lower display_name_lower then fadd sc 30
         else if contains (lower (hd (split_comma display_name_lower))) query_lower
         then fadd sc 20
         else if contains display_name_lower query_lower then fadd sc 10
         else sc)"

definition truthy :: "string option \<Rightarrow> bool" where
  "truthy v = (case v of None \<Rightarrow> False | Some s \<Rightarrow> s \<noteq> [])"

definition score_item ::
  "(real \<Rightarrow> real \<Rightarrow> real) \<Rightarrow> (real \<Rightarrow> real \<Rightarrow> real) \<Rightarrow> (string \<Rightarrow> string) \<Rightarrow> string \<Rightarrow> item
     \<Rightarrow> scored_result outcome" where
  "score_item fadd fmul lower query it =
     (case i_importance it of
        None \<Rightarrow> Raised
      | Some importance \<Rightarrow>
          if i_class it = ''boundary'' \<and> i_type it = ''administrative''
             \<and> truthy (i_country it) \<and> i_display_name it = None
          then Raised
          else if i_class it = ''boundary'' \<and> i_type it = ''administrative''
             \<and> truthy (i_country it)
             \<and> length (split_comma (the (i_display_name it))) \<le> 1
          then Skipped
          else if i_class it \<in> set [''natural'', ''waterway'']
             \<and> i_type it \<in> set [''sea'', ''ocean'', ''continent'']
          then Skipped
          else (case (i_display_name it, i_lat it, i_lon it) of
                  (Some display_name, Some lat, Some lon) \<Rightarrow>
                    Scored \<lparr> r_display_name = display_name, r_lat = lat, r_lon = lon,
                             r_score =
                               add_name_bonus fadd lower query display_name
                                 (fadd (real (base_score (i_class it) (i_type it)))
                                    (fmul importance 20)),
                             r_type = i_type it, r_class = i_class it \<rparr>
                | _ \<Rightarrow> Raised))"

text \<open>The loop over the candidates: \<open>None\<close> when an iteration raises.\<close>

fun score_results ::
  "(real \<Rightarrow> real \<Rightarrow> real) \<Rightarrow> (real \<Rightarrow> real \<Rightarrow> real) \<Rightarrow> (string \<Rightarrow> string) \<Rightarrow> string \<Rightarrow> item list
     \<Rightarrow> scored_result list option" where
  "score_results fadd fmul lower query [] = Some []"
| "score_results fadd fmul lower query (it # data) =
     (case score_item fadd fmul lower query it of
        Raised \<Rightarrow> None
      | Skipped \<Rightarrow> score_results fadd fmul lower query data
      | Scored r \<Rightarrow> map_option ((#) r) (score_results fadd fmul lower query data))"

definition strip_score :: "scored_result \<Rightarrow> suggestion" where
  "strip_score r =
     \<lparr> g_display_name = r_display_name r, g_lat = r_lat r, g_lon = r_lon r \<rparr>"

text \<open>\<open>list.sort(key=..., reverse=True)\<close> is stable: equal scores keep their order.
  The response is \<open>None\<close> when the request fails or its status is not 200.\<close>

definition ranked :: "scored_result list \<Rightarrow> scored_result list" where
  "ranked scored_results = sort_key (\<lambda>x. - r_score x) scored_results"

definition autocomplete ::
  "(real \<Rightarrow> real \<Rightarrow> real) \<Rightarrow> (real \<Rightarrow> real \<Rightarrow> real) \<Rightarrow> (string \<Rightarrow> string) \<Rightarrow> string
     \<Rightarrow> item list option \<Rightarrow> suggestion list" where
  "autocomplete fadd fmul lower query response =
     (case response of
        None \<Rightarrow> []
      | Some data \<Rightarrow>
          (case score_results fadd fmul lower query data of
             None \<Rightarrow> []
           | Some scored_results \<Rightarrow> map strip_score (take 8 (ranked scored_results))))"

text \<open>The candidates the loop can process without raising, and the two kinds of
  candidates that the exclusion pass is meant to drop: a bare country (an administrative
  boundary with a country in its address and a display name without a comma), and a sea,
  ocean or continent.\<close>

definition well_formed :: "item \<Rightarrow> bool" where
  "well_formed it =
     (i_importance it \<noteq> None \<and> i_display_name it \<noteq> None
      \<and> i_lat it \<noteq> None \<and> i_lon it \<noteq> None)"

definition bare_country :: "item \<Rightarrow> bool" where
  "bare_country it =
     (i_class it = ''boundary'' \<and> i_type it = ''administrative''
      \<and> truthy (i_country it) \<and> CHR '','' \<notin> set (the (i_display_name it)))"

definition sea_or_continent :: "item \<Rightarrow> bool" where
  "sea_or_continent it =
     ((i_class it = ''natural'' \<or> i_class it = ''waterway'')
      \<and> (i_type it = ''sea'' \<or> i_type it = ''ocean'' \<or> i_type it = ''continent''))"

definition survivors :: "item list \<Rightarrow> item list" where
  "survivors data = filter (\<lambda>it. \<not> bare_country it \<and> \<not> sea_or_continent it) data"

text \<open>The internal record of a candidate that is kept.\<close>

definition scored_of ::
  "(real \<Rightarrow> real \<Rightarrow> real) \<Rightarrow> (real \<Rightarrow> real \<Rightarrow> real) \<Rightarrow> (string \<Rightarrow> string) \<Rightarrow> string \<Rightarrow> item
     \<Rightarrow> scored_result" where
  "scored_of fadd fmul lower query it =
     \<lparr> r_display_name = the (i_display_name it), r_lat = the (i_lat it),
       r_lon = the (i_lon it),
       r_score = add_name_bonus fadd lower query (the (i_display_name it))
                   (fadd (real (base_score (i_class it) (i_type it)))
                      (fmul (the (i_importance it)) 20)),
       r_type = i_type it, r_class = i_class it \<rparr>"

text \<open>Lower-casing of the ASCII letters, an instance of \<open>lower\<close> for evaluating examples.\<close>

definition ascii_lower :: "string \<Rightarrow> string" where
  "ascii_lower s =
     map (\<lambda>c. case map_of (zip ''ABCDEFGHIJKLMNOPQRSTUVWXYZ'' ''abcdefghijklmnopqrstuvwxyz'') c
               of Some l \<Rightarrow> l | None \<Rightarrow> c) s"

section \<open>Example inputs\<close>

text \<open>Addition and multiplication without rounding, instances of \<open>fadd\<close> and \<open>fmul\<close> for
  evaluating examples whose numbers floats represent exactly.\<close>

definition exact_add :: "real \<Rightarrow> real \<Rightarrow> real" where
  "exact_add x y = x + y"

definition exact_mul :: "real \<Rightarrow> real \<Rightarrow> real" where
  "exact_mul x y = x * y"

definition office_row :: "unit demand_row" where
  "office_row = \<lparr> d_cells = [''nan'', ''office''], d_centroid = Some () \<rparr>"

definition school_row :: "unit demand_row" where
  "school_row = \<lparr> d_cells = [''school'', ''nan''], d_centroid = Some () \<rparr>"

definition other_row :: "unit demand_row" where
  "other_row = \<lparr> d_cells = [''nan'', ''yes''], d_centroid = Some () \<rparr>"

definition cafe_row :: "unit supply_row" where
  "cafe_row = \<lparr> s_name = Some ''Cafe'', s_centroid = Point () \<rparr>"

text \<open>Stand-ins for the serialiser and the digest, for evaluating examples of the cache.\<close>

definition demo_dumps :: "(string \<times> string) list \<Rightarrow> string" where
  "demo_dumps ps = concat (map (\<lambda>(k, v). k @ '':'' @ v @ '';'') ps)"

definition demo_digest :: "string \<Rightarrow> string" where
  "demo_digest s = rev s"

definition demo_params :: "(string \<times> string) list" where
  "demo_params = [(''lat'', ''13.7563''), (''lon'', ''100.5018''),
                  (''business_type'', ''Cafe''), (''radius'', ''1000'')]"

definition demo_params_reordered :: "(string \<times> string) list" where
  "demo_params_reordered = [(''radius'', ''1000''), (''business_type'', ''Cafe''),
                            (''lon'', ''100.5018''), (''lat'', ''13.7563'')]"

definition demo_store :: "(string, nat) cache_store" where
  "demo_store = Map.empty"

text \<open>Entries and calls for evaluating examples of the history.\<close>

definition demo_summary :: "real option \<Rightarrow> result_summary" where
  "demo_summary sc =
     \<lparr> rs_score = sc, rs_verdict = Some Balanced, rs_supply_count = Some 2,
       rs_demand_count = Some 5, rs_growth_status = Some Stable,
       rs_construction_count = Some 0 \<rparr>"

definition demo_entry :: "int \<Rightarrow> string \<Rightarrow> real option \<Rightarrow> history_entry" where
  "demo_entry now btype sc =
     \<lparr> h_timestamp = now, h_location = (13.7563, 100.5018), h_business_type = btype,
       h_radius = 1000, h_result = demo_summary sc \<rparr>"

definition demo_call :: "nat \<Rightarrow> call" where
  "demo_call i = (int i, 13.7563, 100.5018, ''Cafe'', 1000, demo_summary (Some 2.5))"

definition demo_log :: "history_entry list" where
  "demo_log = [demo_entry 1 ''Cafe'' (Some 2), demo_entry 2 ''Pharmacy'' (Some 3),
               demo_entry 3 ''Cafe'' (Some 7)]"

text \<open>Candidates for evaluating examples of the ranking.\<close>

definition demo_cafe :: item where
  "demo_cafe =
     \<lparr> i_type = ''cafe'', i_class = ''amenity'', i_importance = Some 0.5,
       i_country = Some ''Thailand'', i_display_name = Some ''Central Cafe, Bangkok'',
       i_lat = Some 13.75, i_lon = Some 100.5 \<rparr>"

definition demo_country :: item where
  "demo_country =
     \<lparr> i_type = ''administrative'', i_class = ''boundary'', i_importance = Some 0.9,
       i_country = Some ''Thailand'', i_display_name = Some ''Thailand'',
       i_lat = Some 15, i_lon = Some 101 \<rparr>"

definition demo_sea :: item where
  "demo_sea =
     \<lparr> i_type = ''sea'', i_class = ''natural'', i_importance = Some 0.6,
       i_country = None, i_display_name = Some ''Andaman Sea'',
       i_lat = Some 10, i_lon = Some 96 \<rparr>"

definition demo_suburb :: item where
  "demo_suburb =
     \<lparr> i_type = ''suburb'', i_class = ''place'', i_importance = Some 0.25,
       i_country = Some ''Thailand'', i_display_name = Some ''Bang Rak, CENTRAL Bangkok'',
       i_lat = Some 13.73, i_lon = Some 100.52 \<rparr>"

section \<open>Properties of the analysis\<close>

lemma length_sample_rows: "length (sample_rows rng k xs) = min k (length xs)"
proof (induction k arbitrary: xs)
  case 0
  then show ?case by simp
next
  case (Suc k)
  show ?case
  proof (cases "xs = []")
    case True
    then show ?thesis by simp
  next
    case False
    then have "rng k mod length xs < length xs" by simp
    then have "length (take (rng k mod length xs) xs @ drop (Suc (rng k mod length xs)) xs)
        = length xs - 1"
      by simp
    with False Suc.IH show ?thesis
      by (cases xs) (simp_all add: Let_def)
  qed
qed

lemma breakdown_total_classify:
  "breakdown_total (classify_row bd row) = breakdown_total bd + 1"
  by (cases "first_group (d_cells row)"; cases "the (first_group (d_cells row))")
     (simp_all add: classify_row_def breakdown_total_def)

lemma breakdown_total_foldl:
  "breakdown_total (foldl classify_row bd rows) = breakdown_total bd + length rows"
  by (induction rows arbitrary: bd) (simp_all add: breakdown_total_classify)

lemma breakdown_total_empty: "breakdown_total empty_breakdown = 0"
  by (simp add: breakdown_total_def empty_breakdown_def)

lemma fetch_demand_total:
  "breakdown_total (fst (fetch_demand rng demand)) =
     (case demand of None \<Rightarrow> 0 | Some rows \<Rightarrow> length rows)"
  by (simp add: fetch_demand_def Let_def breakdown_total_foldl breakdown_total_empty
      split: option.splits)

lemma fetch_demand_points:
  "length (snd (fetch_demand rng demand)) =
     (case demand of
        None \<Rightarrow> 0
      | Some rows \<Rightarrow>
          if list_ex (\<lambda>row. d_centroid row = None) rows then 0
          else min 1000 (length rows))"
  by (simp add: fetch_demand_def Let_def length_sample_rows split: option.splits)

lemma analyze_market_breakdown:
  "demand_breakdown (analyze_market round2 rng supply demand cons) =
     fst (fetch_demand rng demand)"
  by (simp add: analyze_market_def Let_def split: prod.splits)

lemma analyze_market_demand_points:
  "demand_points (analyze_market round2 rng supply demand cons) =
     snd (fetch_demand rng demand)"
  by (simp add: analyze_market_def Let_def split: prod.splits)

lemma analyze_market_demand_count:
  "demand_count (analyze_market round2 rng supply demand cons) =
     length (snd (fetch_demand rng demand))"
  by (simp add: analyze_market_def Let_def split: prod.splits)

lemma market_score_max:
  "market_score round2 s d = round2 (real d / real (max s 1))"
proof (cases "s = 0")
  case True
  then show ?thesis by (simp add: market_score_def)
next
  case False
  then have "max s 1 = s" by simp
  with False show ?thesis by (simp add: market_score_def)
qed

lemma analyze_market_score:
  "score (analyze_market round2 rng supply demand cons) =
     market_score round2 (supply_count (analyze_market round2 rng supply demand cons))
       (demand_count (analyze_market round2 rng supply demand cons))"
  by (simp add: analyze_market_def Let_def split: prod.splits)

lemma analyze_market_verdict:
  "(verdict (analyze_market round2 rng supply demand cons),
    verdict_color (analyze_market round2 rng supply demand cons)) =
     market_verdict (supply_count (analyze_market round2 rng supply demand cons))
       (demand_count (analyze_market round2 rng supply demand cons))
       (score (analyze_market round2 rng supply demand cons))"
  by (simp add: analyze_market_def Let_def split: prod.splits)

lemma analyze_market_supply_count:
  "supply_count (analyze_market round2 rng supply demand cons) = snd (fetch_supply supply)"
  by (simp add: analyze_market_def Let_def split: prod.splits)

lemma round_half_even2_examples:
  "round_half_even2 (11 / 2) = 11 / 2"
  "round_half_even2 (15 / 10) = 3 / 2"
  "round_half_even2 7 = 7"
  by (simp_all add: round_half_even2_def Let_def)

text \<open>
  Claim C1, as amended. The four category counts of the breakdown sum to the number of raw
  demand rows (0 when the fetch fails or returns no row), since every row is classified
  before the sampling. When the demand points can be built from the rows, \<open>demand_count\<close>
  is the number of rows left after the sampling, the smaller of the raw count and 1000.
  So the counts sum to \<open>demand_count\<close> whenever there are at most 1000 raw rows, the empty
  set included, and the centroid of every row can be read.
\<close>

theorem breakdown_sum:
  "breakdown_total (demand_breakdown (analyze_market round2 rng supply demand cons)) =
     (case demand of None \<Rightarrow> 0 | Some rows \<Rightarrow> length rows)
   \<and> ((case demand of None \<Rightarrow> True
         | Some rows \<Rightarrow> \<not> list_ex (\<lambda>row. d_centroid row = None) rows) \<longrightarrow>
        demand_count (analyze_market round2 rng supply demand cons) =
          (case demand of None \<Rightarrow> 0 | Some rows \<Rightarrow> min 1000 (length rows)))
   \<and> ((case demand of None \<Rightarrow> True
         | Some rows \<Rightarrow> length rows \<le> 1000
                         \<and> \<not> list_ex (\<lambda>row. d_centroid row = None) rows) \<longrightarrow>
        breakdown_total (demand_breakdown (analyze_market round2 rng supply demand cons)) =
          demand_count (analyze_market round2 rng supply demand cons))"
  by (simp add: analyze_market_breakdown analyze_market_demand_count fetch_demand_total
      fetch_demand_points split: option.splits)

text \<open>Witness for C1: three rows, one per way of being classified; the counts sum to 3,
  which is \<open>demand_count\<close>.\<close>

theorem breakdown_sum_witness:
  "length [office_row, school_row, other_row] \<le> 1000
   \<and> \<not> list_ex (\<lambda>row. d_centroid row = None) [office_row, school_row, other_row]
   \<and> breakdown_total (demand_breakdown (analyze_market round_half_even2 first_draw None
        (Some [office_row, school_row, other_row]) None)) = 3
   \<and> demand_count (analyze_market round_half_even2 first_draw None
        (Some [office_row, school_row, other_row]) None) = 3"
  using breakdown_sum [of round_half_even2 first_draw None
      "Some [office_row, school_row, other_row]" None]
  by (simp add: office_row_def school_row_def other_row_def)

text \<open>
  Counterexample to C1 as stated: with 1001 raw demand rows the counts sum to 1001 while
  \<open>demand_count\<close> is 1000.
\<close>

theorem breakdown_sum_counterexample:
  "breakdown_total (demand_breakdown (analyze_market round_half_even2 first_draw None
      (Some (replicate 1001 office_row)) None)) = 1001
   \<and> demand_count (analyze_market round_half_even2 first_draw None
      (Some (replicate 1001 office_row)) None) = 1000
   \<and> breakdown_total (demand_breakdown (analyze_market round_half_even2 first_draw None
      (Some (replicate 1001 office_row)) None))
     \<noteq> demand_count (analyze_market round_half_even2 first_draw None
      (Some (replicate 1001 office_row)) None)"
  by (simp add: analyze_market_breakdown analyze_market_demand_count fetch_demand_total
      fetch_demand_points list_ex_iff office_row_def)

text \<open>
  Claim C10. The \<open>demand_count\<close> of the result is the length of its \<open>demand_points\<close> list,
  and never exceeds 1000, whatever the number of raw demand rows.
\<close>

theorem demand_count_is_points_length:
  "demand_count (analyze_market round2 rng supply demand cons) =
     length (demand_points (analyze_market round2 rng supply demand cons))
   \<and> demand_count (analyze_market round2 rng supply demand cons) \<le> 1000"
  by (simp add: analyze_market_demand_count analyze_market_demand_points fetch_demand_points
      split: option.splits)

text \<open>
  Claim C5. The score is the rounded quotient of \<open>demand_count\<close> by \<open>max supply_count 1\<close>,
  and the verdict with its colour is chosen in this order: no supply and some demand,
  score above 5, score above 2, otherwise saturated.
\<close>

theorem score_and_verdict:
  "score (analyze_market round2 rng supply demand cons) =
     round2 (real (demand_count (analyze_market round2 rng supply demand cons))
             / real (max (supply_count (analyze_market round2 rng supply demand cons)) 1))
   \<and> (verdict (analyze_market round2 rng supply demand cons),
       verdict_color (analyze_market round2 rng supply demand cons)) =
     (if supply_count (analyze_market round2 rng supply demand cons) = 0
         \<and> demand_count (analyze_market round2 rng supply demand cons) > 0
      then (Uncontested, ''#2980b9'')
      else if score (analyze_market round2 rng supply demand cons) > 5
      then (HighPotential, ''#27ae60'')
      else if score (analyze_market round2 rng supply demand cons) > 2
      then (Balanced, ''#f39c12'')
      else (Saturated, ''#c0392b''))"
  unfolding analyze_market_verdict
  by (simp add: analyze_market_score market_score_max market_verdict_def)

text \<open>Witness for C5: 2 supply points and 11 demand points give the score 5.5 and the
  verdict of high potential.\<close>

theorem score_and_verdict_witness:
  "score (analyze_market round_half_even2 first_draw (Some [cafe_row, cafe_row])
      (Some (replicate 11 office_row)) None) = 11 / 2
   \<and> verdict (analyze_market round_half_even2 first_draw (Some [cafe_row, cafe_row])
      (Some (replicate 11 office_row)) None) = HighPotential
   \<and> verdict_color (analyze_market round_half_even2 first_draw (Some [cafe_row, cafe_row])
      (Some (replicate 11 office_row)) None) = ''#27ae60''"
proof -
  let ?r = "analyze_market round_half_even2 first_draw (Some [cafe_row, cafe_row])
      (Some (replicate 11 office_row)) None"
  have sc: "supply_count ?r = 2"
    by (simp add: analyze_market_supply_count fetch_supply_def cafe_row_def)
  have dc: "demand_count ?r = 11"
    by (simp add: analyze_market_demand_count fetch_demand_points list_ex_iff office_row_def)
  note sv = score_and_verdict [of round_half_even2 first_draw "Some [cafe_row, cafe_row]"
      "Some (replicate 11 office_row)" None]
  have s: "score ?r = 11 / 2"
    using conjunct1 [OF sv] by (simp add: sc dc round_half_even2_examples)
  have "(verdict ?r, verdict_color ?r) = (HighPotential, ''#27ae60'')"
    using conjunct2 [OF sv] by (simp add: sc dc s)
  with s show ?thesis by simp
qed

text \<open>
  Claim C6. The growth status is booming exactly when there are more than 5 construction
  sites, growing exactly when there are more than 2 and at most 5, and stable otherwise;
  when the construction fetch fails the count is 0 and the status stable.
\<close>

theorem growth_status_thresholds:
  "(growth_status (analyze_market round2 rng supply demand (Some n)) = Booming \<longleftrightarrow> n > 5)
   \<and> (growth_status (analyze_market round2 rng supply demand (Some n)) = Growing
        \<longleftrightarrow> 2 < n \<and> n \<le> 5)
   \<and> (growth_status (analyze_market round2 rng supply demand (Some n)) = Stable \<longleftrightarrow> n \<le> 2)
   \<and> construction_count (analyze_market round2 rng supply demand (Some n)) = n
   \<and> growth_status (analyze_market round2 rng supply demand None) = Stable
   \<and> construction_count (analyze_market round2 rng supply demand None) = 0"
  by (simp add: analyze_market_def future_growth_def Let_def split: prod.splits)

text \<open>Witness for C6: 6 sites are booming, 2 stable, 3 and 5 growing.\<close>

theorem growth_status_thresholds_witness:
  "growth_status (analyze_market round_half_even2 first_draw None
      (None :: unit demand_row list option) (Some 6)) = Booming
   \<and> growth_status (analyze_market round_half_even2 first_draw None
      (None :: unit demand_row list option) (Some 2)) = Stable
   \<and> growth_status (analyze_market round_half_even2 first_draw None
      (None :: unit demand_row list option) (Some 3)) = Growing
   \<and> growth_status (analyze_market round_half_even2 first_draw None
      (None :: unit demand_row list option) (Some 5)) = Growing"
  using growth_status_thresholds [of round_half_even2 first_draw None
        "None :: unit demand_row list option" 6]
    growth_status_thresholds [of round_half_even2 first_draw None
        "None :: unit demand_row list option" 2]
    growth_status_thresholds [of round_half_even2 first_draw None
        "None :: unit demand_row list option" 3]
    growth_status_thresholds [of round_half_even2 first_draw None
        "None :: unit demand_row list option" 5]
  by simp

section \<open>Properties of the cache\<close>

lemma sort_key_fst_unique:
  assumes "distinct (map fst xs)" and "distinct (map fst ys)" and "set xs = set ys"
  shows "sort_key fst xs = sort_key fst ys"
proof -
  let ?a = "sort_key fst xs" and ?b = "sort_key fst ys"
  from assms(1) have inj_x: "inj_on fst (set xs)" and dx: "distinct xs"
    by (simp_all add: distinct_map)
  from assms(2) have inj_y: "inj_on fst (set ys)" and dy: "distinct ys"
    by (simp_all add: distinct_map)
  have da: "distinct (map fst ?a)"
    using inj_x dx by (simp add: distinct_map)
  have db: "distinct (map fst ?b)"
    using inj_y dy by (simp add: distinct_map)
  have "set (map fst ?a) = set (map fst ?b)"
    using assms(3) by simp
  moreover have "sorted (map fst ?a)" and "sorted (map fst ?b)"
    by simp_all
  ultimately have keys: "map fst ?a = map fst ?b"
    using da db by (blast intro: sorted_distinct_set_unique)
  have "inj_on fst (set ?a \<union> set ?b)"
    using inj_x assms(3) by simp
  with keys show ?thesis
    by (simp add: inj_on_map_eq_map)
qed

text \<open>
  Claim C2. Two parameter dictionaries with the same key-value pairs, built in different
  insertion orders, get the same cache key. The key depends on the parameters only:
  \<open>generate_key\<close> takes no time argument.
\<close>

theorem generate_key_order_independent:
  assumes "distinct (map fst P1)" and "distinct (map fst P2)" and "set P1 = set P2"
  shows "generate_key sha256 dumps P1 = generate_key sha256 dumps P2"
  using sort_key_fst_unique [OF assms] by (simp add: generate_key_def)

text \<open>Witness for C2: the four parameters of an analysis, in the order of the source and
  in the reverse order.\<close>

theorem generate_key_order_independent_witness:
  "distinct (map fst demo_params) \<and> distinct (map fst demo_params_reordered)
   \<and> set demo_params = set demo_params_reordered
   \<and> generate_key demo_digest demo_dumps demo_params
       = generate_key demo_digest demo_dumps demo_params_reordered"
proof -
  have d1: "distinct (map fst demo_params)"
    by (simp add: demo_params_def)
  have d2: "distinct (map fst demo_params_reordered)"
    by (simp add: demo_params_reordered_def)
  have s: "set demo_params = set demo_params_reordered"
    by (auto simp: demo_params_def demo_params_reordered_def)
  from generate_key_order_independent [OF d1 d2 s, of demo_digest demo_dumps] d1 d2 s
  show ?thesis by simp
qed

text \<open>
  Claim C3. After \<open>set\<close> at time \<open>t0\<close>, \<open>get\<close> with the same parameters at time \<open>now\<close> returns
  the stored data and leaves the store as it is when \<open>now - t0\<close> does not exceed the
  time-to-live; when \<open>now - t0\<close> exceeds it, \<open>get\<close> returns nothing and deletes the entry.
  In any store: no file for the key gives nothing; an entry older than the time-to-live is
  deleted and nothing is returned; and whatever \<open>get\<close> returns is the data of an entry
  that is not older than the time-to-live.
\<close>

theorem cache_get_after_set:
  "(now - t0 \<le> ttl \<longrightarrow>
      cache_get sha256 dumps ttl now kwargs (cache_set sha256 dumps t0 data kwargs store)
        = (Some data, cache_set sha256 dumps t0 data kwargs store))
   \<and> (now - t0 > ttl \<longrightarrow>
      cache_get sha256 dumps ttl now kwargs (cache_set sha256 dumps t0 data kwargs store)
        = (None, (cache_set sha256 dumps t0 data kwargs store)
                   (generate_key sha256 dumps kwargs := None)))
   \<and> (store (generate_key sha256 dumps kwargs) = None \<longrightarrow>
      cache_get sha256 dumps ttl now kwargs store = (None, store))
   \<and> (\<forall>e. store (generate_key sha256 dumps kwargs) = Some (Stored e)
          \<and> now - ce_timestamp e > ttl \<longrightarrow>
      cache_get sha256 dumps ttl now kwargs store
        = (None, store(generate_key sha256 dumps kwargs := None)))
   \<and> (\<forall>d store'. cache_get sha256 dumps ttl now kwargs store = (Some d, store') \<longrightarrow>
        (\<exists>e. store (generate_key sha256 dumps kwargs) = Some (Stored e)
           \<and> ce_data e = d \<and> now - ce_timestamp e \<le> ttl \<and> store' = store))"
  by (auto simp: cache_get_def cache_set_def Let_def split: option.splits cache_file.splits
      if_splits)

text \<open>Witness for C3: an entry stored at time 0 with a time-to-live of 24 hours is
  returned one hour later, and is deleted, with nothing returned, 25 hours later; in the
  empty store nothing is found.\<close>

theorem cache_get_after_set_witness:
  "(3600000000::int) - 0 \<le> 86400000000
   \<and> cache_get demo_digest demo_dumps 86400000000 3600000000 demo_params
        (cache_set demo_digest demo_dumps 0 (42::nat) demo_params demo_store)
       = (Some 42, cache_set demo_digest demo_dumps 0 42 demo_params demo_store)
   \<and> (90000000000::int) - 0 > 86400000000
   \<and> fst (cache_get demo_digest demo_dumps 86400000000 90000000000 demo_params
        (cache_set demo_digest demo_dumps 0 (42::nat) demo_params demo_store)) = None
   \<and> snd (cache_get demo_digest demo_dumps 86400000000 90000000000 demo_params
        (cache_set demo_digest demo_dumps 0 (42::nat) demo_params demo_store))
        (generate_key demo_digest demo_dumps demo_params) = None
   \<and> demo_store (generate_key demo_digest demo_dumps demo_params) = None
   \<and> cache_get demo_digest demo_dumps 86400000000 3600000000 demo_params demo_store
       = (None, demo_store)"
  using cache_get_after_set [of 3600000000 0 86400000000 demo_digest demo_dumps demo_params
      42 demo_store]
    cache_get_after_set [of 90000000000 0 86400000000 demo_digest demo_dumps demo_params
      42 demo_store]
  by (simp add: demo_store_def)

section \<open>Properties of the history\<close>

lemma most_recent_append:
  "most_recent n (most_recent n xs @ ys) = most_recent n (xs @ ys)"
proof (cases "length xs \<le> n")
  case True
  then show ?thesis by (simp add: most_recent_def)
next
  case False
  then have "length ys + (length xs - n) = length xs + length ys - n"
    and "n + length ys - n = length ys"
    by simp_all
  with False show ?thesis by (simp add: most_recent_def)
qed

lemma most_recent_map_upt: "most_recent k (map g [0..<m]) = map g [m - k..<m]"
  by (simp add: most_recent_def drop_map)

lemma add_analysis_most_recent:
  "add_analysis round6 now lat lon business_type radius result file =
     Some (most_recent 100
       (load_history file @ [make_entry round6 now lat lon business_type radius result]))"
  by (simp add: add_analysis_def most_recent_def Let_def)

lemma load_history_Some: "load_history (Some h) = h"
  by (simp add: load_history_def)

lemma add_all_most_recent:
  "calls \<noteq> [] \<Longrightarrow>
   add_all round6 file calls =
     Some (most_recent 100 (load_history file @ map (entry_of_call round6) calls))"
proof (induction calls arbitrary: "file")
  case Nil
  then show ?case by simp
next
  case (Cons c calls)
  obtain now lat lon business_type radius result
    where c: "c = (now, lat, lon, business_type, radius, result)"
    by (cases c) auto
  let ?e = "make_entry round6 now lat lon business_type radius result"
  let ?file = "Some (most_recent 100 (load_history file @ [?e]))"
  show ?case
  proof (cases "calls = []")
    case True
    then show ?thesis by (simp add: c add_analysis_most_recent)
  next
    case False
    from Cons.IH [OF False, of ?file]
    have "add_all round6 ?file calls =
        Some (most_recent 100
          (most_recent 100 (load_history file @ [?e]) @ map (entry_of_call round6) calls))"
      by (simp add: load_history_Some)
    then show ?thesis
      by (simp add: c add_analysis_most_recent most_recent_append)
  qed
qed

lemma length_most_recent: "length (most_recent n xs) \<le> n"
  by (simp add: most_recent_def)

text \<open>
  Claim C4. After any non-empty sequence of appends to any history file, the file holds
  the most recent 100 entries of the previous log followed by the appended entries, in
  insertion order, and so at most 100 entries.
\<close>

theorem add_analysis_keeps_most_recent:
  "calls \<noteq> [] \<longrightarrow>
     add_all round6 file calls =
       Some (most_recent 100 (load_history file @ map (entry_of_call round6) calls))
     \<and> length (load_history (add_all round6 file calls)) \<le> 100"
  by (simp add: add_all_most_recent load_history_Some length_most_recent)

text \<open>Witness for C4: 103 appends to an empty log, stamped 0 to 102, leave the 100 entries
  stamped 3 to 102, in that order.\<close>

theorem add_analysis_keeps_most_recent_witness:
  "map demo_call [0..<103] \<noteq> []
   \<and> map h_timestamp (load_history (add_all id (Some []) (map demo_call [0..<103])))
       = map int [3..<103]
   \<and> length (load_history (add_all id (Some []) (map demo_call [0..<103]))) \<le> 100"
proof -
  have ne: "map demo_call [0..<103] \<noteq> []" by simp
  have ts: "h_timestamp \<circ> (entry_of_call id \<circ> demo_call) = int"
    by (auto simp: fun_eq_iff demo_call_def make_entry_def)
  have three: "(103::nat) - 100 = 3" by simp
  note kept = add_analysis_keeps_most_recent [of "map demo_call [0..<103]" id "Some []"]
  from kept ne
  have "add_all id (Some []) (map demo_call [0..<103]) =
      Some (most_recent 100 (load_history (Some []) @
        map (entry_of_call id) (map demo_call [0..<103])))"
    by blast
  then have "load_history (add_all id (Some []) (map demo_call [0..<103])) =
      map (entry_of_call id \<circ> demo_call) [3..<103]"
    by (simp only: load_history_Some append_Nil map_map most_recent_map_upt three)
  then have "map h_timestamp (load_history (add_all id (Some []) (map demo_call [0..<103])))
      = map int [3..<103]"
    by (simp only: map_map ts)
  with ne kept show ?thesis by blast
qed

lemma map_of_bump:
  "map_of (bump m k) = (map_of m)(k \<mapsto> (case map_of m k of None \<Rightarrow> 1 | Some c \<Rightarrow> c + 1))"
  by (induction m k rule: bump.induct) (auto simp: fun_eq_iff)

lemma keys_bump: "set (map fst (bump m k)) = insert k (set (map fst m))"
  by (induction m k rule: bump.induct) auto

lemma distinct_bump: "distinct (map fst m) \<Longrightarrow> distinct (map fst (bump m k))"
proof (induction m k rule: bump.induct)
  case (1 btype)
  then show ?case by simp
next
  case (2 k c m btype)
  then show ?case
    using keys_bump [of m btype] by auto
qed

lemma distinct_foldl_bump:
  "distinct (map fst m) \<Longrightarrow> distinct (map fst (foldl bump m ks))"
  by (induction ks arbitrary: m) (simp_all add: distinct_bump)

lemma map_of_foldl_bump:
  "map_of (foldl bump m ks) b =
     (case map_of m b of
        None \<Rightarrow> if b \<in> set ks then Some (length (filter (\<lambda>k. k = b) ks)) else None
      | Some c \<Rightarrow> Some (c + length (filter (\<lambda>k. k = b) ks)))"
proof (induction ks arbitrary: m)
  case Nil
  then show ?case by (simp split: option.splits)
next
  case (Cons k ks)
  show ?case
    by (simp add: Cons.IH map_of_bump split: option.splits)
qed

lemma stats_loop_scores:
  "\<forall>e \<in> set h. rs_score (h_result e) \<noteq> None \<Longrightarrow>
   stats_loop fadd types acc h =
     Inr (foldl bump types (map h_business_type h),
          foldl fadd acc (map (\<lambda>e. the (rs_score (h_result e))) h))"
  by (induction h arbitrary: types acc) auto

lemma stats_loop_raises:
  "\<exists>e \<in> set h. rs_score (h_result e) = None \<Longrightarrow>
   stats_loop fadd types acc h = Inl TypeError"
  by (induction h arbitrary: types acc) (auto split: option.splits)

lemma max_item_mem: "max_item best xs \<in> set (best # xs)"
  by (induction xs arbitrary: best) auto

lemma max_item_ge_best: "snd best \<le> snd (max_item best xs)"
proof (induction xs arbitrary: best)
  case Nil
  then show ?case by simp
next
  case (Cons x xs)
  show ?case
  proof (cases "snd x > snd best")
    case True
    with Cons.IH [of x] show ?thesis by simp
  next
    case False
    with Cons.IH [of best] show ?thesis by simp
  qed
qed

lemma max_item_ge_tail: "y \<in> set xs \<Longrightarrow> snd y \<le> snd (max_item best xs)"
proof (induction xs arbitrary: best)
  case Nil
  then show ?case by simp
next
  case (Cons x xs)
  show ?case
  proof (cases "snd x > snd best")
    case True
    show ?thesis
    proof (cases "y = x")
      case True
      with \<open>snd x > snd best\<close> max_item_ge_best [of x xs] show ?thesis by simp
    next
      case False
      with Cons.prems have "y \<in> set xs" by simp
      from Cons.IH [OF this, of x] \<open>snd x > snd best\<close> show ?thesis by simp
    qed
  next
    case False
    show ?thesis
    proof (cases "y = x")
      case True
      with \<open>\<not> snd x > snd best\<close> max_item_ge_best [of best xs] show ?thesis by simp
    next
      case False
      with Cons.prems have "y \<in> set xs" by simp
      from Cons.IH [OF this, of best] \<open>\<not> snd x > snd best\<close> show ?thesis by simp
    qed
  qed
qed

lemma max_item_ge: "y \<in> set (best # xs) \<Longrightarrow> snd y \<le> snd (max_item best xs)"
  using max_item_ge_best [of best xs] max_item_ge_tail [of y xs best] by auto

lemma type_count_filter:
  "length (filter (\<lambda>k. k = b) (map h_business_type h)) = type_count h b"
  by (simp add: type_count_def filter_map comp_def)

lemma histogram_lookup:
  "map_of (foldl bump [] (map h_business_type h)) b =
     (if b \<in> h_business_type ` set h then Some (type_count h b) else None)"
  unfolding map_of_foldl_bump type_count_filter by simp

lemma most_analyzed_is_most_frequent:
  assumes "h \<noteq> []"
  shows "\<exists>m. most_analyzed (foldl bump [] (map h_business_type h)) = Some m
           \<and> m \<in> h_business_type ` set h \<and> (\<forall>b. type_count h b \<le> type_count h m)"
proof -
  let ?types = "foldl bump [] (map h_business_type h)"
  have dist: "distinct (map fst ?types)"
    by (simp add: distinct_foldl_bump)
  from assms obtain e where "e \<in> set h" by (cases h) auto
  then have "map_of ?types (h_business_type e) \<noteq> None"
    by (simp add: histogram_lookup)
  then have "?types \<noteq> []" by auto
  then obtain x xs where types: "?types = x # xs" by (cases ?types) auto
  let ?best = "max_item x xs"
  have sel: "most_analyzed ?types = Some (fst ?best)"
    by (simp add: most_analyzed_def types)
  have mem: "?best \<in> set ?types"
    using max_item_mem [of x xs] by (simp add: types)
  with dist have look: "map_of ?types (fst ?best) = Some (snd ?best)"
    by (metis map_of_eq_Some_iff prod.collapse)
  then have m_in: "fst ?best \<in> h_business_type ` set h"
    and m_count: "snd ?best = type_count h (fst ?best)"
    by (auto simp: histogram_lookup split: if_splits)
  have "type_count h b \<le> type_count h (fst ?best)" for b
  proof (cases "b \<in> h_business_type ` set h")
    case True
    then have "map_of ?types b = Some (type_count h b)"
      by (simp add: histogram_lookup)
    then have "(b, type_count h b) \<in> set (x # xs)"
      using map_of_SomeD types by metis
    from max_item_ge [OF this] m_count show ?thesis by simp
  next
    case False
    then have "filter (\<lambda>e. h_business_type e = b) h = []"
      by (auto simp: filter_empty_conv)
    then show ?thesis by (simp add: type_count_def)
  qed
  with sel m_in show ?thesis by blast
qed

lemma get_statistics_scores:
  assumes "load_history stored \<noteq> []"
    and "\<forall>e \<in> set (load_history stored). rs_score (h_result e) \<noteq> None"
  shows "get_statistics fadd round2 stored =
     Inr \<lparr> total_analyses = length (load_history stored),
           business_types = foldl bump [] (map h_business_type (load_history stored)),
           average_score = round2 (score_sum fadd (load_history stored)
                                   / real (length (load_history stored))),
           most_analyzed_type =
             most_analyzed (foldl bump [] (map h_business_type (load_history stored))),
           date_range = Some (h_timestamp (hd (load_history stored)),
                              h_timestamp (last (load_history stored))) \<rparr>"
  using assms by (simp add: get_statistics_def Let_def stats_loop_scores score_sum_def)

lemma get_statistics_raises:
  "\<exists>e \<in> set (load_history stored). rs_score (h_result e) = None \<Longrightarrow>
   get_statistics fadd round2 stored = Inl TypeError"
proof -
  assume a: "\<exists>e \<in> set (load_history stored). rs_score (h_result e) = None"
  then have "load_history stored \<noteq> []" by auto
  with stats_loop_raises [OF a, of fadd "[]" 0] show ?thesis
    by (simp add: get_statistics_def Let_def)
qed

text \<open>
  What the statistics are where they do not raise. On an empty (or unreadable) log they
  are the zeroed record: total 0, empty histogram, average 0, no most frequent type, no
  date range. On a non-empty log in which every entry has a score, the total is the length
  of the log, the histogram gives each business type of the log its number of entries and
  nothing else, the average is the rounded quotient of the float sum of the scores (added
  from the first entry to the last) by the length, the most frequent type is a type of the
  log that no other type outnumbers, and the date range is the timestamps of the first and
  the last entry.
\<close>

lemma get_statistics_scored_log:
  "(load_history stored = [] \<longrightarrow>
      get_statistics fadd round2 stored =
        Inr \<lparr> total_analyses = 0, business_types = [], average_score = 0,
              most_analyzed_type = None, date_range = None \<rparr>)
   \<and> (load_history stored \<noteq> []
        \<and> (\<forall>e \<in> set (load_history stored). rs_score (h_result e) \<noteq> None) \<longrightarrow>
      (\<exists>st m. get_statistics fadd round2 stored = Inr st
         \<and> total_analyses st = length (load_history stored)
         \<and> (\<forall>b. map_of (business_types st) b =
                (if b \<in> h_business_type ` set (load_history stored)
                 then Some (type_count (load_history stored) b) else None))
         \<and> average_score st =
             round2 (score_sum fadd (load_history stored)
                     / real (length (load_history stored)))
         \<and> most_analyzed_type st = Some m
         \<and> m \<in> h_business_type ` set (load_history stored)
         \<and> (\<forall>b. type_count (load_history stored) b \<le> type_count (load_history stored) m)
         \<and> date_range st = Some (h_timestamp (hd (load_history stored)),
                                  h_timestamp (last (load_history stored)))))"
proof (intro conjI impI)
  assume "load_history stored = []"
  then show "get_statistics fadd round2 stored =
      Inr \<lparr> total_analyses = 0, business_types = [], average_score = 0,
            most_analyzed_type = None, date_range = None \<rparr>"
    by (simp add: get_statistics_def)
next
  let ?h = "load_history stored"
  assume a: "?h \<noteq> [] \<and> (\<forall>e \<in> set ?h. rs_score (h_result e) \<noteq> None)"
  then have ne: "?h \<noteq> []" and sc: "\<forall>e \<in> set ?h. rs_score (h_result e) \<noteq> None"
    by simp_all
  from most_analyzed_is_most_frequent [OF ne] obtain m
    where m: "most_analyzed (foldl bump [] (map h_business_type ?h)) = Some m"
      "m \<in> h_business_type ` set ?h" "\<forall>b. type_count ?h b \<le> type_count ?h m"
    by blast
  show "\<exists>st m. get_statistics fadd round2 stored = Inr st
         \<and> total_analyses st = length ?h
         \<and> (\<forall>b. map_of (business_types st) b =
                (if b \<in> h_business_type ` set ?h then Some (type_count ?h b) else None))
         \<and> average_score st = round2 (score_sum fadd ?h / real (length ?h))
         \<and> most_analyzed_type st = Some m
         \<and> m \<in> h_business_type ` set ?h
         \<and> (\<forall>b. type_count ?h b \<le> type_count ?h m)
         \<and> date_range st = Some (h_timestamp (hd ?h), h_timestamp (last ?h))"
    unfolding get_statistics_scores [OF ne sc]
    using m by (simp add: histogram_lookup)
qed

text \<open>An example: a log of two cafe analyses and one pharmacy analysis, with scores
  2, 3 and 7, and the empty log.\<close>

lemma get_statistics_demo_log:
  "get_statistics exact_add round_half_even2 (Some demo_log) =
       Inr \<lparr> total_analyses = 3, business_types = [(''Cafe'', 2), (''Pharmacy'', 1)],
             average_score = 4, most_analyzed_type = Some ''Cafe'',
             date_range = Some (1, 3) \<rparr>
   \<and> get_statistics exact_add round_half_even2 (Some []) =
       Inr \<lparr> total_analyses = 0, business_types = [], average_score = 0,
             most_analyzed_type = None, date_range = None \<rparr>"
  by (simp add: get_statistics_def load_history_def demo_log_def demo_entry_def
      demo_summary_def most_analyzed_def round_half_even2_def exact_add_def Let_def)

text \<open>
  Claim C9. The statistics operation is claimed never to fail. The code does fail:
  \<open>add_analysis\<close> stores \<open>result.get("score")\<close>, which is \<open>None\<close> for a result without a
  score, and \<open>get_statistics\<close> reads it with \<open>.get("score", 0)\<close>; the key is there, so
  the default is not used and adding \<open>None\<close> to the total raises \<open>TypeError\<close>. Here one
  such result is appended to the empty log, and the statistics of that log raise.
\<close>

theorem get_statistics_null_score:
  "add_analysis id 1 13.7563 100.5018 ''Cafe'' 1000 (demo_summary None) (Some [])
     = Some [demo_entry 1 ''Cafe'' None]
   \<and> get_statistics exact_add round_half_even2 (Some [demo_entry 1 ''Cafe'' None])
       = Inl TypeError"
  by (simp add: add_analysis_def make_entry_def load_history_def get_statistics_def
      demo_entry_def demo_summary_def Let_def)

section \<open>Properties of the ranking\<close>

lemma split_comma_not_Nil: "split_comma s \<noteq> []"
  by (induction s) (auto split: list.splits)

lemma length_split_comma:
  "length (split_comma s) = Suc (length (filter (\<lambda>c. c = CHR '','') s))"
proof (induction s)
  case Nil
  then show ?case by simp
next
  case (Cons c cs)
  with split_comma_not_Nil [of cs] show ?case
    by (cases "split_comma cs") auto
qed

lemma single_segment: "length (split_comma s) \<le> 1 \<longleftrightarrow> CHR '','' \<notin> set s"
  by (auto simp: length_split_comma filter_empty_conv)

lemma single_segment_Suc: "length (split_comma s) \<le> Suc 0 \<longleftrightarrow> CHR '','' \<notin> set s"
  using single_segment [of s] by simp

lemma hd_split_comma: "hd (split_comma s) = takeWhile (\<lambda>c. c \<noteq> CHR '','') s"
proof (induction s)
  case Nil
  then show ?case by simp
next
  case (Cons c cs)
  with split_comma_not_Nil [of cs] show ?case
    by (cases "split_comma cs") auto
qed

lemma contains_sublist: "contains s q \<longleftrightarrow> sublist q s"
  by (induction s) (auto simp: sublist_Cons_right)

lemma add_name_bonus_cases:
  "add_name_bonus fadd lower query name sc =
     (if prefix (lower query) (lower name) then fadd sc 30
      else if sublist (lower query)
                (lower (takeWhile (\<lambda>c. c \<noteq> CHR '','') (lower name))) then fadd sc 20
      else if sublist (lower query) (lower name) then fadd sc 10
      else sc)"
  by (simp add: add_name_bonus_def Let_def hd_split_comma contains_sublist)

lemma score_item_well_formed:
  assumes "well_formed it"
  shows "score_item fadd fmul lower query it =
     (if bare_country it \<or> sea_or_continent it then Skipped
      else Scored (scored_of fadd fmul lower query it))"
  using assms
  by (auto simp: score_item_def well_formed_def bare_country_def sea_or_continent_def
      single_segment_Suc scored_of_def)

lemma score_results_well_formed:
  "\<forall>it \<in> set data. well_formed it \<Longrightarrow>
   score_results fadd fmul lower query data = Some (map (scored_of fadd fmul lower query) (survivors data))"
  by (induction data) (simp_all add: score_item_well_formed survivors_def)

lemma autocomplete_well_formed:
  "\<forall>it \<in> set data. well_formed it \<Longrightarrow>
   autocomplete fadd fmul lower query (Some data) =
     map strip_score (take 8 (ranked (map (scored_of fadd fmul lower query) (survivors data))))"
  by (simp add: autocomplete_def score_results_well_formed)

lemma ranked_descending: "sorted_wrt (\<lambda>a b. r_score b \<le> r_score a) (ranked rs)"
proof -
  have "sorted (map (\<lambda>x. - r_score x) (ranked rs))"
    by (simp add: ranked_def)
  then show ?thesis
    by (simp add: sorted_map)
qed

lemma ranked_stable:
  "filter (\<lambda>r. r_score r = k) (ranked rs) = filter (\<lambda>r. r_score r = k) rs"
  using sort_key_stable [of "\<lambda>x. - r_score x" "- k" rs]
  by (simp add: ranked_def)

lemma base_score_unknown_class:
  "place_class \<notin> set [''amenity'', ''shop'', ''tourism'', ''leisure'', ''building'',
      ''highway'', ''place'', ''boundary''] \<Longrightarrow> base_score place_class place_type = 40"
  by (simp add: base_score_def priority_map_def)

lemma base_score_unknown_place_type:
  "place_type \<notin> set [''neighbourhood'', ''suburb'', ''quarter'', ''city_block'', ''hamlet'',
      ''village'', ''town'', ''city'', ''state'', ''country''] \<Longrightarrow>
   base_score ''place'' place_type = 30"
  by (simp add: base_score_def priority_map_def)

lemma base_score_table:
  "base_score ''amenity'' t = 100" "base_score ''shop'' t = 95"
  "base_score ''tourism'' t = 90" "base_score ''leisure'' t = 85"
  "base_score ''building'' t = 80" "base_score ''highway'' t = 70"
  "base_score ''boundary'' t = 20"
  "base_score ''place'' ''suburb'' = 55" "base_score ''place'' ''country'' = 5"
  by (simp_all add: base_score_def priority_map_def)


text \<open>
  Claim C8. For a list of candidates that the loop can process, the score of each
  candidate kept is its base score plus 20 times its importance plus one name bonus:
  30 when the lowered display name starts with the lowered query, else 20 when the lowered
  query occurs in the first comma-delimited segment, else 10 when it occurs anywhere in
  the name, else nothing. The sums and the product are those of floats. The base score is 40 for a class outside the table and 30 for the class
  place with a type outside its table. The candidates kept are sorted by descending score,
  candidates of equal score keep their input order, and the first 8, without the score,
  are returned.
\<close>

theorem relevance_ranking:
  assumes "\<forall>it \<in> set data. well_formed it"
  shows "\<exists>scored. score_results fadd fmul lower query data = Some scored
    \<and> list_all2 (\<lambda>it r.
          r_score r =
            (if prefix (lower query) (lower (the (i_display_name it)))
             then fadd (fadd (real (base_score (i_class it) (i_type it)))
                          (fmul (the (i_importance it)) 20)) 30
             else if sublist (lower query)
                       (lower (takeWhile (\<lambda>c. c \<noteq> CHR '','')
                          (lower (the (i_display_name it)))))
             then fadd (fadd (real (base_score (i_class it) (i_type it)))
                          (fmul (the (i_importance it)) 20)) 20
             else if sublist (lower query) (lower (the (i_display_name it)))
             then fadd (fadd (real (base_score (i_class it) (i_type it)))
                          (fmul (the (i_importance it)) 20)) 10
             else fadd (real (base_score (i_class it) (i_type it)))
                    (fmul (the (i_importance it)) 20))
          \<and> strip_score r = \<lparr> g_display_name = the (i_display_name it),
                               g_lat = the (i_lat it), g_lon = the (i_lon it) \<rparr>)
        (filter (\<lambda>it. \<not> bare_country it \<and> \<not> sea_or_continent it) data) scored
    \<and> autocomplete fadd fmul lower query (Some data) = map strip_score (take 8 (ranked scored))
    \<and> sorted_wrt (\<lambda>a b. r_score b \<le> r_score a) (ranked scored)
    \<and> (\<forall>k. filter (\<lambda>r. r_score r = k) (ranked scored) = filter (\<lambda>r. r_score r = k) scored)
    \<and> length (autocomplete fadd fmul lower query (Some data)) \<le> 8
    \<and> (\<forall>c t. c \<notin> set [''amenity'', ''shop'', ''tourism'', ''leisure'', ''building'',
                        ''highway'', ''place'', ''boundary''] \<longrightarrow> base_score c t = 40)
    \<and> (\<forall>t. t \<notin> set [''neighbourhood'', ''suburb'', ''quarter'', ''city_block'', ''hamlet'',
                      ''village'', ''town'', ''city'', ''state'', ''country''] \<longrightarrow>
            base_score ''place'' t = 30)"
proof -
  let ?scored = "map (scored_of fadd fmul lower query) (survivors data)"
  have res: "score_results fadd fmul lower query data = Some ?scored"
    by (rule score_results_well_formed [OF assms])
  have fields: "list_all2 (\<lambda>it r.
          r_score r =
            (if prefix (lower query) (lower (the (i_display_name it)))
             then fadd (fadd (real (base_score (i_class it) (i_type it)))
                          (fmul (the (i_importance it)) 20)) 30
             else if sublist (lower query)
                       (lower (takeWhile (\<lambda>c. c \<noteq> CHR '','')
                          (lower (the (i_display_name it)))))
             then fadd (fadd (real (base_score (i_class it) (i_type it)))
                          (fmul (the (i_importance it)) 20)) 20
             else if sublist (lower query) (lower (the (i_display_name it)))
             then fadd (fadd (real (base_score (i_class it) (i_type it)))
                          (fmul (the (i_importance it)) 20)) 10
             else fadd (real (base_score (i_class it) (i_type it)))
                    (fmul (the (i_importance it)) 20))
          \<and> strip_score r = \<lparr> g_display_name = the (i_display_name it),
                               g_lat = the (i_lat it), g_lon = the (i_lon it) \<rparr>)
        (filter (\<lambda>it. \<not> bare_country it \<and> \<not> sea_or_continent it) data) ?scored"
    unfolding survivors_def list_all2_map2
    by (rule list_all2_refl) (simp add: scored_of_def strip_score_def add_name_bonus_cases)
  have auto_eq: "autocomplete fadd fmul lower query (Some data) = map strip_score (take 8 (ranked ?scored))"
    by (rule autocomplete_well_formed [OF assms])
  then have len: "length (autocomplete fadd fmul lower query (Some data)) \<le> 8"
    by simp
  from res fields auto_eq len show ?thesis
    using ranked_descending [of ?scored] ranked_stable [of _ ?scored]
      base_score_unknown_class base_score_unknown_place_type
    by blast
qed

lemma ascii_lower_examples:
  "ascii_lower ''Central'' = ''central''"
  "ascii_lower ''Central Cafe, Bangkok'' = ''central cafe, bangkok''"
  "ascii_lower ''Bang Rak, CENTRAL Bangkok'' = ''bang rak, central bangkok''"
  "ascii_lower ''central cafe'' = ''central cafe''"
  "ascii_lower ''bang rak'' = ''bang rak''"
  by (simp_all add: ascii_lower_def)

lemma demo_well_formed:
  "well_formed demo_cafe" "well_formed demo_country" "well_formed demo_sea"
  "well_formed demo_suburb"
  by (simp_all add: well_formed_def demo_cafe_def demo_country_def demo_sea_def
      demo_suburb_def)

lemma demo_dropped:
  "\<not> bare_country demo_cafe" "\<not> sea_or_continent demo_cafe"
  "bare_country demo_country" "sea_or_continent demo_sea"
  "\<not> bare_country demo_suburb" "\<not> sea_or_continent demo_suburb"
  by (simp_all add: bare_country_def sea_or_continent_def truthy_def demo_cafe_def
      demo_country_def demo_sea_def demo_suburb_def)

lemma demo_bonus:
  "add_name_bonus exact_add ascii_lower ''Central'' ''Central Cafe, Bangkok'' sc = sc + 30"
  "add_name_bonus exact_add ascii_lower ''Central'' ''Bang Rak, CENTRAL Bangkok'' sc = sc + 10"
  by (simp_all add: add_name_bonus_cases ascii_lower_examples contains_sublist [symmetric]
      exact_add_def)

lemma demo_scores:
  "r_score (scored_of exact_add exact_mul ascii_lower ''Central'' demo_cafe) = 140"
  "r_score (scored_of exact_add exact_mul ascii_lower ''Central'' demo_suburb) = 70"
  by (simp_all add: scored_of_def demo_cafe_def demo_suburb_def base_score_table demo_bonus
      exact_add_def exact_mul_def)

lemma demo_strip:
  "strip_score (scored_of exact_add exact_mul ascii_lower ''Central'' demo_cafe) =
     \<lparr> g_display_name = ''Central Cafe, Bangkok'', g_lat = 13.75, g_lon = 100.5 \<rparr>"
  "strip_score (scored_of exact_add exact_mul ascii_lower ''Central'' demo_suburb) =
     \<lparr> g_display_name = ''Bang Rak, CENTRAL Bangkok'', g_lat = 13.73, g_lon = 100.52 \<rparr>"
  by (simp_all add: strip_score_def scored_of_def demo_cafe_def demo_suburb_def)


text \<open>Witness for C8: of four candidates the country and the sea are dropped; the cafe
  scores 100 + 10 + 30 and the suburb 55 + 5 + 10, so the cafe comes first although the
  suburb precedes it in the input.\<close>

theorem relevance_ranking_witness:
  "well_formed demo_country \<and> well_formed demo_sea \<and> well_formed demo_suburb
   \<and> well_formed demo_cafe
   \<and> score_results exact_add exact_mul ascii_lower ''Central'' [demo_country, demo_sea, demo_suburb, demo_cafe]
       = Some [scored_of exact_add exact_mul ascii_lower ''Central'' demo_suburb,
               scored_of exact_add exact_mul ascii_lower ''Central'' demo_cafe]
   \<and> r_score (scored_of exact_add exact_mul ascii_lower ''Central'' demo_suburb) = 70
   \<and> r_score (scored_of exact_add exact_mul ascii_lower ''Central'' demo_cafe) = 140
   \<and> autocomplete exact_add exact_mul ascii_lower ''Central''
        (Some [demo_country, demo_sea, demo_suburb, demo_cafe]) =
       [\<lparr> g_display_name = ''Central Cafe, Bangkok'', g_lat = 13.75, g_lon = 100.5 \<rparr>,
        \<lparr> g_display_name = ''Bang Rak, CENTRAL Bangkok'', g_lat = 13.73, g_lon = 100.52 \<rparr>]"
proof -
  let ?data = "[demo_country, demo_sea, demo_suburb, demo_cafe]"
  let ?kept = "[scored_of exact_add exact_mul ascii_lower ''Central'' demo_suburb,
                scored_of exact_add exact_mul ascii_lower ''Central'' demo_cafe]"
  have wf: "\<forall>it \<in> set ?data. well_formed it"
    by (simp add: demo_well_formed)
  have res: "score_results exact_add exact_mul ascii_lower ''Central'' ?data = Some ?kept"
    by (subst score_results_well_formed [OF wf]) (simp add: survivors_def demo_dropped)
  from relevance_ranking [OF wf, of exact_add exact_mul ascii_lower "''Central''"] res
  have "autocomplete exact_add exact_mul ascii_lower ''Central'' (Some ?data) =
      map strip_score (take 8 (ranked ?kept))"
    by auto
  moreover have "ranked ?kept = [scored_of exact_add exact_mul ascii_lower ''Central'' demo_cafe,
                                 scored_of exact_add exact_mul ascii_lower ''Central'' demo_suburb]"
    by (simp add: ranked_def demo_scores)
  ultimately have "autocomplete exact_add exact_mul ascii_lower ''Central'' (Some ?data) =
       [\<lparr> g_display_name = ''Central Cafe, Bangkok'', g_lat = 13.75, g_lon = 100.5 \<rparr>,
        \<lparr> g_display_name = ''Bang Rak, CENTRAL Bangkok'', g_lat = 13.73, g_lon = 100.52 \<rparr>]"
    by (simp add: demo_strip)
  with res show ?thesis
    by (simp add: demo_well_formed demo_scores)
qed


end
